theory Spec2Isabelle
  imports Main "HOL-Library.Char_ord" "HOL-Library.List_Lexorder" "HOL-Library.Multiset"
begin

section \<open>Values exchanged with the two external services\<close>

text \<open>
  The backend is one Python module, \<^verbatim>\<open>main.py\<close>: three FastAPI handlers around a
  language-model client (Groq) and a table store (Supabase). Both services are outside
  the program; what they answer is an input of the model, and every call the program
  issues to them is recorded in the order it is made.

  A Python \<^verbatim>\<open>str\<close> is held as the list of bytes of its UTF-8 encoding. Concatenation
  of strings is concatenation of encodings, and Python's order on strings (by code
  point) is the bytewise lexicographic order of the encodings, which is the order
  of \<^typ>\<open>string\<close> here.
\<close>

text \<open>
  A cell of a row as the store's JSON decodes it for a text, timestamp or identifier
  column: \<^verbatim>\<open>None\<close>, a \<^verbatim>\<open>str\<close> or an \<^verbatim>\<open>int\<close>. Floats, booleans and
  lists are not values of these columns and are not modelled.
\<close>

datatype cell = CNull | CStr string | CInt int

text \<open>A decoded JSON document, as the \<^verbatim>\<open>analysis\<close> column holds one.\<close>

datatype json = JNull | JStr string | JInt int | JArr "json list" | JObj "(string \<times> json) list"

text \<open>
  What a call to an external client does: it raises (the exception is kept as
  \<^verbatim>\<open>str(e)\<close>, the only thing the handlers read from it) or it returns.
\<close>

datatype 'a outcome = Raises string | Returns 'a

subsection \<open>Request bodies (the pydantic models)\<close>

record TranscriptRequest =
  transcript :: string
  company_name :: string
  attendees :: string
  date :: string

record IcebreakerRequest =
  username :: string
  role :: string
  linkedin_bio :: string
  deck_url :: string

text \<open>
  Validation of a body: a required field is given, an optional one (\<^verbatim>\<open>str = ""\<close>)
  may be missing and then takes the empty string.
\<close>

definition or_default :: "'a \<Rightarrow> 'a option \<Rightarrow> 'a" where
  "or_default d v = (case v of None \<Rightarrow> d | Some x \<Rightarrow> x)"

definition parse_TranscriptRequest ::
  "string \<Rightarrow> string option \<Rightarrow> string option \<Rightarrow> string option \<Rightarrow> TranscriptRequest" where
  "parse_TranscriptRequest t c a d =
     \<lparr>transcript = t, company_name = or_default '''' c,
      attendees = or_default '''' a, date = or_default '''' d\<rparr>"

definition parse_IcebreakerRequest ::
  "string \<Rightarrow> string \<Rightarrow> string \<Rightarrow> string option \<Rightarrow> IcebreakerRequest" where
  "parse_IcebreakerRequest u r b d =
     \<lparr>username = u, role = r, linkedin_bio = b, deck_url = or_default '''' d\<rparr>"

subsection \<open>The analysis dict and the rows of the two tables\<close>

text \<open>
  \<^verbatim>\<open>{"summary": ..., "insights": [...], "status": ...}\<close>. The summary is the
  \<^verbatim>\<open>content\<close> of a chat message on success, which the client types as an optional
  string: \<open>None\<close> is Python's \<^verbatim>\<open>None\<close>.
\<close>

record analysis =
  summary :: "string option"
  insights :: "string list"
  status :: string

text \<open>
  The dict handed to \<^verbatim>\<open>insert\<close>: the fields of the request under their own names,
  and the analysis.
\<close>

record 'd insert_row =
  row_data :: 'd
  row_analysis :: analysis

text \<open>
  A row that the store returns is a dict. The handlers read a fixed set of keys from it,
  so it is a record of those keys; \<open>None\<close> says that the dict has no such key
  (a key whose value is null holds \<open>Some CNull\<close>).
\<close>

record transcript_row =
  tr_id :: "cell option"
  tr_company_name :: "cell option"
  tr_attendees :: "cell option"
  tr_date :: "cell option"
  tr_analysis :: "json option"
  tr_created_at :: "cell option"

record icebreaker_row =
  ib_id :: "cell option"
  ib_username :: "cell option"
  ib_role :: "cell option"
  ib_analysis :: "json option"
  ib_created_at :: "cell option"

text \<open>
  An item of the feed. Only the items made from transcripts have a \<^verbatim>\<open>date\<close> key.
\<close>

record feed_item =
  feed_id :: cell
  feed_type :: string
  feed_title :: cell
  feed_description :: cell
  feed_date :: "cell option"
  feed_analysis :: json
  feed_created_at :: cell

subsection \<open>The process and its surroundings\<close>

text \<open>
  The calls issued to the external services, and the globals of the module together
  with the answers of the services. \<open>groq_create\<close> is
  \<^verbatim>\<open>groq_client.chat.completions.create\<close> on a prompt (model, temperature and token
  limit are constants of the call); it answers with the \<^verbatim>\<open>message.content\<close> of each
  choice. \<open>lt_type_error\<close> is the text of the \<^verbatim>\<open>TypeError\<close> that \<^verbatim>\<open>list.sort\<close>
  raises on keys it cannot order: which two keys the text names depends on the
  interpreter's sorting algorithm.
\<close>

datatype call =
    Groq_create string
  | Insert_transcripts "TranscriptRequest insert_row"
  | Insert_icebreakers "IcebreakerRequest insert_row"
  | Select_transcripts
  | Select_icebreakers

type_synonym groq = "string \<Rightarrow> string option list outcome"

record world =
  GROQ_API_KEY :: "string option"
  groq_client :: "groq option"
  insert_transcripts :: "TranscriptRequest insert_row \<Rightarrow> transcript_row list outcome"
  insert_icebreakers :: "IcebreakerRequest insert_row \<Rightarrow> icebreaker_row list outcome"
  select_transcripts :: "transcript_row list outcome"
  select_icebreakers :: "icebreaker_row list outcome"
  lt_type_error :: "cell list \<Rightarrow> string"

text \<open>Truth value of an environment variable: unset and empty are both false.\<close>

definition truthy :: "string option \<Rightarrow> bool" where
  "truthy k = (case k of None \<Rightarrow> False | Some s \<Rightarrow> s \<noteq> [])"

text \<open>
  Module start: \<^verbatim>\<open>groq_client = None; if GROQ_API_KEY: groq_client = Groq(...)\<close>.
\<close>

definition startup :: "string option \<Rightarrow> groq \<Rightarrow> 'a world_scheme \<Rightarrow> 'a world_scheme" where
  "startup key service w =
     w\<lparr>GROQ_API_KEY := key, groq_client := (if truthy key then Some service else None)\<rparr>"

datatype http_error = HTTPException (status_code: nat) (detail: string)

record response =
  result :: analysis
  resp_id :: cell

record feed_response =
  items :: "feed_item list"

section \<open>Python primitives\<close>

definition digit_char :: "nat \<Rightarrow> char" where
  "digit_char n = char_of (48 + n)"

fun str_nat :: "nat \<Rightarrow> string" where
  "str_nat n = (if n < 10 then [digit_char n] else str_nat (n div 10) @ [digit_char (n mod 10)])"

declare str_nat.simps [simp del]

definition str_int :: "int \<Rightarrow> string" where
  "str_int i = (if i < 0 then CHR ''-'' # str_nat (nat (- i)) else str_nat (nat i))"

text \<open>\<^verbatim>\<open>str(v)\<close>, as an f-string formats a value.\<close>

fun py_str :: "cell \<Rightarrow> string" where
  "py_str CNull = ''None''"
| "py_str (CStr s) = s"
| "py_str (CInt i) = str_int i"

text \<open>\<^verbatim>\<open>str(KeyError(k))\<close> for a string key: the key in single quotes.\<close>

definition str_KeyError :: "string \<Rightarrow> string" where
  "str_KeyError k = [CHR 0x27] @ k @ [CHR 0x27]"

text \<open>\<^verbatim>\<open>d.get(k, default)\<close> and \<^verbatim>\<open>d[k]\<close> on a key of a row.\<close>

definition dict_get :: "'a option \<Rightarrow> 'a \<Rightarrow> 'a" where
  "dict_get v d = (case v of None \<Rightarrow> d | Some x \<Rightarrow> x)"

definition dict_item :: "'a option \<Rightarrow> string \<Rightarrow> string + 'a" where
  "dict_item v k = (case v of None \<Rightarrow> Inl (str_KeyError k) | Some x \<Rightarrow> Inr x)"

fun is_str :: "cell \<Rightarrow> bool" where
  "is_str (CStr s) = True"
| "is_str _ = False"

fun is_int :: "cell \<Rightarrow> bool" where
  "is_int (CInt i) = True"
| "is_int _ = False"

fun str_of :: "cell \<Rightarrow> string" where
  "str_of (CStr s) = s"
| "str_of _ = []"

fun int_of :: "cell \<Rightarrow> int" where
  "int_of (CInt i) = i"
| "int_of _ = 0"

text \<open>
  \<^verbatim>\<open>xs.sort(key=key, reverse=True)\<close>. A list of fewer than two elements is not
  compared at all. Otherwise every key takes part in a comparison, and among
  \<^verbatim>\<open>None\<close>, \<^verbatim>\<open>str\<close> and \<^verbatim>\<open>int\<close> only two strings or two integers can be
  ordered (\<^verbatim>\<open>None < None\<close> raises too), so the sort returns exactly when all keys are
  strings or all are integers. With \<^verbatim>\<open>reverse=True\<close> the interpreter reverses the
  list, sorts it stably in ascending order and reverses it again, so that elements
  with equal keys keep their order.
\<close>

definition list_sort_reverse ::
  "(cell list \<Rightarrow> string) \<Rightarrow> ('a \<Rightarrow> cell) \<Rightarrow> 'a list \<Rightarrow> string + 'a list" where
  "list_sort_reverse type_error key xs =
     (if length xs < 2 then Inr xs
      else if list_all (\<lambda>x. is_str (key x)) xs
        then Inr (rev (sort_key (\<lambda>x. str_of (key x)) (rev xs)))
      else if list_all (\<lambda>x. is_int (key x)) xs
        then Inr (rev (sort_key (\<lambda>x. int_of (key x)) (rev xs)))
      else Inl (type_error (map key xs)))"

text \<open>\<^verbatim>\<open>a >= b\<close> where Python defines it on cells.\<close>

fun py_ge :: "cell \<Rightarrow> cell \<Rightarrow> bool" where
  "py_ge (CStr s) (CStr t) = (t \<le> s)"
| "py_ge (CInt i) (CInt j) = (j \<le> i)"
| "py_ge _ _ = False"

section \<open>Prompt builder\<close>

text \<open>The f-string of \<^verbatim>\<open>analyze_transcript\<close>, line by line.\<close>

definition transcript_prompt :: "TranscriptRequest \<Rightarrow> string" where
  "transcript_prompt data =
     ''\<newline>'' @
     ''        Review this transcript for '' @ company_name data @ ''.\<newline>'' @
     ''        Attendees: '' @ attendees data @ ''\<newline>'' @
     ''        Date: '' @ date data @ ''\<newline>'' @
     ''\<newline>'' @
     ''        Transcript:\<newline>'' @
     ''        '' @ transcript data @ ''\<newline>'' @
     ''\<newline>'' @
     ''        Share:\<newline>'' @
     ''        1. What I did well (and why)\<newline>'' @
     ''        2. What I could do better next time\<newline>'' @
     ''        3. Recommendations for improvement\<newline>'' @
     ''        ''"

text \<open>
  The f-string of \<^verbatim>\<open>generate_icebreaker\<close>. The deck slot is
  \<^verbatim>\<open>{data.deck_url if data.deck_url else "No pitch deck provided"}\<close>.
\<close>

definition icebreaker_prompt :: "IcebreakerRequest \<Rightarrow> string" where
  "icebreaker_prompt data =
     ''\<newline>'' @
     ''        You are a sales expert analyzing a LinkedIn prospect for personalized outreach. Here's the prospect information:\<newline>'' @
     ''\<newline>'' @
     ''        **Prospect Name:** '' @ username data @ ''\<newline>'' @
     ''        **Current Role:** '' @ role data @ ''\<newline>'' @
     ''        \<newline>'' @
     ''        **LinkedIn About Section:**\<newline>'' @
     ''        '' @ linkedin_bio data @ ''\<newline>'' @
     ''\<newline>'' @
     ''        **Pitch Deck Context:** '' @ (if deck_url data \<noteq> [] then deck_url data else ''No pitch deck provided'') @ ''\<newline>'' @
     ''\<newline>'' @
     ''        Based on this information, provide a comprehensive icebreaker analysis with the following sections:\<newline>'' @
     ''\<newline>'' @
     ''        ## 1. BUYING SIGNALS\<newline>'' @
     ''        - Identify 3-5 specific indicators that suggest '' @ username data @ '' might be interested in purchasing solutions\<newline>'' @
     ''        - Look for pain points, growth initiatives, technology mentions, or business challenges\<newline>'' @
     ''        - Reference their role as '' @ role data @ '' and how it relates to potential needs\<newline>'' @
     ''\<newline>'' @
     ''        ## 2. DISCOVERY TRIGGERS\<newline>'' @
     ''        - Find 3-4 conversation starters based on their background\<newline>'' @
     ''        - Identify shared connections, interests, or experiences\<newline>'' @
     ''        - Highlight recent achievements or career moves worth mentioning\<newline>'' @
     ''\<newline>'' @
     ''        ## 3. SMART QUESTIONS\<newline>'' @
     ''        - Create 4-5 thoughtful, role-specific questions for '' @ role data @ ''\<newline>'' @
     ''        - Questions should demonstrate industry knowledge and genuine interest\<newline>'' @
     ''        - Avoid generic questions - make them specific to their situation\<newline>'' @
     ''\<newline>'' @
     ''        ## 4. PERSONALIZED OUTREACH APPROACH\<newline>'' @
     ''        - Suggest the best way to approach '' @ username data @ '' based on their communication style\<newline>'' @
     ''        - Recommend timing and channel preferences\<newline>'' @
     ''        - Identify what value proposition would resonate most\<newline>'' @
     ''\<newline>'' @
     ''        ## 5. REFLECTION QUESTIONS\<newline>'' @
     ''        - What are the top 3 things '' @ username data @ '' would likely care about most?\<newline>'' @
     ''        - What's unclear about their current situation that needs discovery?\<newline>'' @
     ''        - What potential objections might they have and how to address them?\<newline>'' @
     ''\<newline>'' @
     ''        Make the analysis specific to '' @ username data @ '' as a '' @ role data @ '' and avoid generic advice.\<newline>'' @
     ''        ''"

text \<open>
  The specification's reading of the prompt builder: a fixed template, a list of literal
  pieces and numbered slots, into which the fields of the request are put as they are.
\<close>

datatype piece = Lit string | Slot nat

fun render :: "piece list \<Rightarrow> string list \<Rightarrow> string" where
  "render [] fs = []"
| "render (Lit s # ps) fs = s @ render ps fs"
| "render (Slot i # ps) fs = (if i < length fs then fs ! i else []) @ render ps fs"

definition transcript_template :: "piece list" where
  "transcript_template =
    [Lit ''\<newline>'',
     Lit ''        Review this transcript for '', Slot 0, Lit ''.\<newline>'',
     Lit ''        Attendees: '', Slot 1, Lit ''\<newline>'',
     Lit ''        Date: '', Slot 2, Lit ''\<newline>'',
     Lit ''\<newline>'',
     Lit ''        Transcript:\<newline>'',
     Lit ''        '', Slot 3, Lit ''\<newline>'',
     Lit ''\<newline>'',
     Lit ''        Share:\<newline>'',
     Lit ''        1. What I did well (and why)\<newline>'',
     Lit ''        2. What I could do better next time\<newline>'',
     Lit ''        3. Recommendations for improvement\<newline>'',
     Lit ''        '']"

definition icebreaker_template :: "piece list" where
  "icebreaker_template =
    [Lit ''\<newline>'',
     Lit ''        You are a sales expert analyzing a LinkedIn prospect for personalized outreach. Here's the prospect information:\<newline>'',
     Lit ''\<newline>'',
     Lit ''        **Prospect Name:** '', Slot 0, Lit ''\<newline>'',
     Lit ''        **Current Role:** '', Slot 1, Lit ''\<newline>'',
     Lit ''        \<newline>'',
     Lit ''        **LinkedIn About Section:**\<newline>'',
     Lit ''        '', Slot 2, Lit ''\<newline>'',
     Lit ''\<newline>'',
     Lit ''        **Pitch Deck Context:** '', Slot 3, Lit ''\<newline>'',
     Lit ''\<newline>'',
     Lit ''        Based on this information, provide a comprehensive icebreaker analysis with the following sections:\<newline>'',
     Lit ''\<newline>'',
     Lit ''        ## 1. BUYING SIGNALS\<newline>'',
     Lit ''        - Identify 3-5 specific indicators that suggest '', Slot 0, Lit '' might be interested in purchasing solutions\<newline>'',
     Lit ''        - Look for pain points, growth initiatives, technology mentions, or business challenges\<newline>'',
     Lit ''        - Reference their role as '', Slot 1, Lit '' and how it relates to potential needs\<newline>'',
     Lit ''\<newline>'',
     Lit ''        ## 2. DISCOVERY TRIGGERS\<newline>'',
     Lit ''        - Find 3-4 conversation starters based on their background\<newline>'',
     Lit ''        - Identify shared connections, interests, or experiences\<newline>'',
     Lit ''        - Highlight recent achievements or career moves worth mentioning\<newline>'',
     Lit ''\<newline>'',
     Lit ''        ## 3. SMART QUESTIONS\<newline>'',
     Lit ''        - Create 4-5 thoughtful, role-specific questions for '', Slot 1, Lit ''\<newline>'',
     Lit ''        - Questions should demonstrate industry knowledge and genuine interest\<newline>'',
     Lit ''        - Avoid generic questions - make them specific to their situation\<newline>'',
     Lit ''\<newline>'',
     Lit ''        ## 4. PERSONALIZED OUTREACH APPROACH\<newline>'',
     Lit ''        - Suggest the best way to approach '', Slot 0, Lit '' based on their communication style\<newline>'',
     Lit ''        - Recommend timing and channel preferences\<newline>'',
     Lit ''        - Identify what value proposition would resonate most\<newline>'',
     Lit ''\<newline>'',
     Lit ''        ## 5. REFLECTION QUESTIONS\<newline>'',
     Lit ''        - What are the top 3 things '', Slot 0, Lit '' would likely care about most?\<newline>'',
     Lit ''        - What's unclear about their current situation that needs discovery?\<newline>'',
     Lit ''        - What potential objections might they have and how to address them?\<newline>'',
     Lit ''\<newline>'',
     Lit ''        Make the analysis specific to '', Slot 0, Lit '' as a '', Slot 1, Lit '' and avoid generic advice.\<newline>'',
     Lit ''        '']"

section \<open>Model gateway\<close>

definition config_missing :: analysis where
  "config_missing =
     \<lparr>summary = Some ''Error: GROQ_API_KEY not configured. Please set your Groq API key in the .env file.'',
      insights = [''AI configuration needed''],
      status = ''error''\<rparr>"

definition call_failed :: "string \<Rightarrow> analysis" where
  "call_failed e =
     \<lparr>summary = Some (''Error calling Groq API: '' @ e), insights = [], status = ''error''\<rparr>"

text \<open>
  \<^verbatim>\<open>call_ai\<close>. Inside the \<^verbatim>\<open>try\<close>, the call may raise, and so may
  \<^verbatim>\<open>response.choices[0]\<close> on an answer without choices (\<^verbatim>\<open>IndexError\<close>); both
  reach the \<^verbatim>\<open>except\<close>. The second component lists the calls made.
\<close>

definition call_ai :: "'a world_scheme \<Rightarrow> string \<Rightarrow> analysis \<times> call list" where
  "call_ai w prompt =
     (if \<not> truthy (GROQ_API_KEY w) then (config_missing, [])
      else case groq_client w of
        None \<Rightarrow> (config_missing, [])
      | Some create \<Rightarrow>
          (case create prompt of
             Raises e \<Rightarrow> (call_failed e, [Groq_create prompt])
           | Returns choices \<Rightarrow>
               (case choices of
                  [] \<Rightarrow> (call_failed ''list index out of range'', [Groq_create prompt])
                | ai_text # _ \<Rightarrow>
                    (\<lparr>summary = ai_text, insights = [], status = ''success''\<rparr>,
                     [Groq_create prompt]))))"

section \<open>Request handlers\<close>

text \<open>
  \<^verbatim>\<open>result.data[0]["id"] if result.data else None\<close>: no row gives \<^verbatim>\<open>None\<close>, a
  first row without the key raises \<^verbatim>\<open>KeyError\<close>.
\<close>

definition first_id :: "'r list \<Rightarrow> ('r \<Rightarrow> cell option) \<Rightarrow> string + cell" where
  "first_id rows get_id =
     (case rows of [] \<Rightarrow> Inr CNull | r # _ \<Rightarrow> dict_item (get_id r) ''id'')"

text \<open>
  The body of a handler's \<^verbatim>\<open>try\<close> yields \<open>Inl\<close> of \<^verbatim>\<open>str(e)\<close> for a raised exception;
  \<^verbatim>\<open>except Exception as e: raise HTTPException(status_code=500, detail=str(e))\<close>
  turns it into the error response.
\<close>

definition except_500 :: "string + 'a \<Rightarrow> http_error + 'a" where
  "except_500 r = (case r of Inl e \<Rightarrow> Inl (HTTPException 500 e) | Inr v \<Rightarrow> Inr v)"

definition analyze_transcript ::
  "'a world_scheme \<Rightarrow> TranscriptRequest \<Rightarrow> (http_error + response) \<times> call list" where
  "analyze_transcript w data =
     (let prompt = transcript_prompt data;
          (ai_response, calls) = call_ai w prompt;
          row = \<lparr>row_data = data, row_analysis = ai_response\<rparr>
      in (except_500
            (case insert_transcripts w row of
               Raises e \<Rightarrow> Inl e
             | Returns rows \<Rightarrow>
                 (case first_id rows tr_id of
                    Inl e \<Rightarrow> Inl e
                  | Inr i \<Rightarrow> Inr \<lparr>result = ai_response, resp_id = i\<rparr>)),
          calls @ [Insert_transcripts row]))"

definition generate_icebreaker ::
  "'a world_scheme \<Rightarrow> IcebreakerRequest \<Rightarrow> (http_error + response) \<times> call list" where
  "generate_icebreaker w data =
     (let prompt = icebreaker_prompt data;
          (ai_response, calls) = call_ai w prompt;
          row = \<lparr>row_data = data, row_analysis = ai_response\<rparr>
      in (except_500
            (case insert_icebreakers w row of
               Raises e \<Rightarrow> Inl e
             | Returns rows \<Rightarrow>
                 (case first_id rows ib_id of
                    Inl e \<Rightarrow> Inl e
                  | Inr i \<Rightarrow> Inr \<lparr>result = ai_response, resp_id = i\<rparr>)),
          calls @ [Insert_icebreakers row]))"

section \<open>Feed aggregator\<close>

definition bullet :: string where
  "bullet = [CHR 0xE2, CHR 0x80, CHR 0xA2]"

text \<open>The dict appended for one transcript row (\<^verbatim>\<open>item["id"]\<close> may raise).\<close>

definition format_transcript :: "transcript_row \<Rightarrow> string + feed_item" where
  "format_transcript item =
     (case dict_item (tr_id item) ''id'' of
        Inl e \<Rightarrow> Inl e
      | Inr i \<Rightarrow> Inr
          \<lparr>feed_id = i,
           feed_type = ''transcript'',
           feed_title = dict_get (tr_company_name item) (CStr ''Unknown Company''),
           feed_description = dict_get (tr_attendees item) (CStr ''''),
           feed_date = Some (dict_get (tr_date item) (CStr '''')),
           feed_analysis = dict_get (tr_analysis item) (JObj []),
           feed_created_at = dict_get (tr_created_at item) (CStr '''')\<rparr>)"

text \<open>The dict appended for one icebreaker row.\<close>

definition format_icebreaker :: "icebreaker_row \<Rightarrow> string + feed_item" where
  "format_icebreaker item =
     (let username = dict_get (ib_username item) (CStr ''Unknown User'');
          role = dict_get (ib_role item) (CStr ''Unknown Role'')
      in case dict_item (ib_id item) ''id'' of
        Inl e \<Rightarrow> Inl e
      | Inr i \<Rightarrow> Inr
          \<lparr>feed_id = i,
           feed_type = ''icebreaker'',
           feed_title = CStr (''LinkedIn Icebreaker - '' @ py_str username),
           feed_description = CStr (py_str role @ '' '' @ bullet @ '' Sales Outreach Analysis''),
           feed_date = None,
           feed_analysis = dict_get (ib_analysis item) (JObj []),
           feed_created_at = dict_get (ib_created_at item) (CStr '''')\<rparr>)"

text \<open>
  The two \<^verbatim>\<open>for\<close> loops: each appends to \<^verbatim>\<open>feed_items\<close> and stops at the first
  exception.
\<close>

fun append_all :: "('r \<Rightarrow> string + feed_item) \<Rightarrow> 'r list \<Rightarrow> feed_item list \<Rightarrow> string + feed_item list" where
  "append_all fmt [] feed_items = Inr feed_items"
| "append_all fmt (item # rest) feed_items =
     (case fmt item of
        Inl e \<Rightarrow> Inl e
      | Inr x \<Rightarrow> append_all fmt rest (feed_items @ [x]))"

text \<open>
  \<^verbatim>\<open>get_feed\<close>. The two reads come first; the second is not issued when the first
  raises. The sort key \<^verbatim>\<open>x.get("created_at", "")\<close> finds the key in every item.
\<close>

definition get_feed :: "'a world_scheme \<Rightarrow> (http_error + feed_response) \<times> call list" where
  "get_feed w =
     (case select_transcripts w of
        Raises e \<Rightarrow> (Inl (HTTPException 500 e), [Select_transcripts])
      | Returns transcripts_data \<Rightarrow>
          (case select_icebreakers w of
             Raises e \<Rightarrow> (Inl (HTTPException 500 e), [Select_transcripts, Select_icebreakers])
           | Returns icebreakers_data \<Rightarrow>
               (except_500
                  (case append_all format_transcript transcripts_data [] of
                     Inl e \<Rightarrow> Inl e
                   | Inr feed_items \<Rightarrow>
                       (case append_all format_icebreaker icebreakers_data feed_items of
                          Inl e \<Rightarrow> Inl e
                        | Inr feed_items \<Rightarrow>
                            (case list_sort_reverse (lt_type_error w) feed_created_at feed_items of
                               Inl e \<Rightarrow> Inl e
                             | Inr sorted_items \<Rightarrow> Inr \<lparr>items = sorted_items\<rparr>))),
                [Select_transcripts, Select_icebreakers])))"

section \<open>Sample data\<close>

text \<open>
  Two stored rows and a process around them, for evaluating the handlers: the store
  answers every insert with the stored row and every read with the one row of the
  table; the key of the model service and the service itself are arguments.
\<close>

definition acme_row :: transcript_row where
  "acme_row =
     \<lparr>tr_id = Some (CInt 1), tr_company_name = Some (CStr ''Acme''),
      tr_attendees = Some (CStr ''''), tr_date = Some (CStr ''''),
      tr_analysis = Some (JObj [(''summary'', JStr ''Good job.''), (''insights'', JArr []),
        (''status'', JStr ''success'')]),
      tr_created_at = Some (CStr ''2024-01-02'')\<rparr>"

definition jane_row :: icebreaker_row where
  "jane_row =
     \<lparr>ib_id = Some (CInt 7), ib_username = Some (CStr ''Jane''), ib_role = Some (CStr ''CTO''),
      ib_analysis = Some (JObj []), ib_created_at = Some (CStr ''2024-01-03'')\<rparr>"

definition sample_world :: "string option \<Rightarrow> groq \<Rightarrow> world" where
  "sample_world key service =
     startup key service
       \<lparr>GROQ_API_KEY = None, groq_client = None,
        insert_transcripts = (\<lambda>row. Returns [acme_row]),
        insert_icebreakers = (\<lambda>row. Returns [jane_row]),
        select_transcripts = Returns [acme_row],
        select_icebreakers = Returns [jane_row],
        lt_type_error = (\<lambda>keys. ''unorderable keys'')\<rparr>"

definition acme_request :: TranscriptRequest where
  "acme_request =
     parse_TranscriptRequest ''Great call, client loved the demo.'' (Some ''Acme'') None None"

definition jane_request :: IcebreakerRequest where
  "jane_request = parse_IcebreakerRequest ''Jane'' ''CTO'' ''...'' None"

text \<open>The feed items of the two rows.\<close>

definition acme_item :: feed_item where
  "acme_item =
     \<lparr>feed_id = CInt 1, feed_type = ''transcript'', feed_title = CStr ''Acme'',
      feed_description = CStr '''', feed_date = Some (CStr ''''),
      feed_analysis = JObj [(''summary'', JStr ''Good job.''), (''insights'', JArr []),
        (''status'', JStr ''success'')],
      feed_created_at = CStr ''2024-01-02''\<rparr>"

definition jane_item :: feed_item where
  "jane_item =
     \<lparr>feed_id = CInt 7, feed_type = ''icebreaker'', feed_title = CStr ''LinkedIn Icebreaker - Jane'',
      feed_description = CStr (''CTO '' @ bullet @ '' Sales Outreach Analysis''),
      feed_date = None, feed_analysis = JObj [], feed_created_at = CStr ''2024-01-03''\<rparr>"

section \<open>Properties\<close>

lemma truthy_Some [simp]: "truthy (Some s) = (s \<noteq> [])"
  by (simp add: truthy_def)

lemma truthy_None [simp]: "\<not> truthy None"
  by (simp add: truthy_def)

lemma sample_world_sel:
  "GROQ_API_KEY (sample_world key service) = key"
  "groq_client (sample_world key service) = (if truthy key then Some service else None)"
  "insert_transcripts (sample_world key service) = (\<lambda>row. Returns [acme_row])"
  "insert_icebreakers (sample_world key service) = (\<lambda>row. Returns [jane_row])"
  "select_transcripts (sample_world key service) = Returns [acme_row]"
  "select_icebreakers (sample_world key service) = Returns [jane_row]"
  by (simp_all add: sample_world_def startup_def)

subsection \<open>Model gateway\<close>

text \<open>
  Claim C4. When no credential of the model service is configured (the variable is unset
  or empty), \<^verbatim>\<open>call_ai\<close> returns, for every prompt, the status \<^verbatim>\<open>"error"\<close>, the
  fixed message about the missing configuration as summary and an insights list of
  exactly one entry, and it has issued no call to the model service.
\<close>

theorem call_ai_no_credential:
  assumes "\<not> truthy (GROQ_API_KEY w)"
  shows "call_ai w prompt =
     (\<lparr>summary = Some ''Error: GROQ_API_KEY not configured. Please set your Groq API key in the .env file.'',
       insights = [''AI configuration needed''], status = ''error''\<rparr>, [])"
  using assms by (simp add: call_ai_def config_missing_def)

theorem call_ai_no_credential_witness:
  "\<not> truthy (GROQ_API_KEY (sample_world None (\<lambda>p. Returns [Some ''Good job.'']))) \<and>
   \<not> truthy (GROQ_API_KEY (sample_world (Some '''') (\<lambda>p. Returns [Some ''Good job.'']))) \<and>
   call_ai (sample_world None (\<lambda>p. Returns [Some ''Good job.''])) ''Review this'' =
     (\<lparr>summary = Some ''Error: GROQ_API_KEY not configured. Please set your Groq API key in the .env file.'',
       insights = [''AI configuration needed''], status = ''error''\<rparr>, []) \<and>
   length (insights (fst (call_ai (sample_world (Some '''') (\<lambda>p. Returns [Some ''Good job.''])) ''Review this''))) = 1"
  using call_ai_no_credential [of "sample_world None (\<lambda>p. Returns [Some ''Good job.''])" "''Review this''"]
    call_ai_no_credential [of "sample_world (Some '''') (\<lambda>p. Returns [Some ''Good job.''])" "''Review this''"]
  by (simp add: sample_world_sel)

text \<open>
  Claim C6. When the call to the model service returns an answer with a first choice,
  \<^verbatim>\<open>call_ai\<close> returns the status \<^verbatim>\<open>"success"\<close>, the content of that choice
  unchanged as summary, and no insights; nothing is parsed out of the text.
\<close>

theorem call_ai_success:
  assumes "truthy (GROQ_API_KEY w)" and "groq_client w = Some create"
    and "create prompt = Returns (ai_text # others)"
  shows "call_ai w prompt =
     (\<lparr>summary = ai_text, insights = [], status = ''success''\<rparr>, [Groq_create prompt])"
  using assms by (simp add: call_ai_def)

theorem call_ai_success_witness:
  "truthy (GROQ_API_KEY (sample_world (Some ''gsk'') (\<lambda>p. Returns [Some ''Good job.'']))) \<and>
   groq_client (sample_world (Some ''gsk'') (\<lambda>p. Returns [Some ''Good job.''])) = Some (\<lambda>p. Returns [Some ''Good job.'']) \<and>
   call_ai (sample_world (Some ''gsk'') (\<lambda>p. Returns [Some ''Good job.''])) ''Review this'' =
     (\<lparr>summary = Some ''Good job.'', insights = [], status = ''success''\<rparr>, [Groq_create ''Review this''])"
  using call_ai_success [of "sample_world (Some ''gsk'') (\<lambda>p. Returns [Some ''Good job.''])"
      "\<lambda>p. Returns [Some ''Good job.'']" "''Review this''" "Some ''Good job.''" "[]"]
  by (simp add: sample_world_sel)

text \<open>The five ways through \<^verbatim>\<open>call_ai\<close>.\<close>

lemma call_ai_cases:
  "(call_ai w prompt = (config_missing, []) \<and> (\<not> truthy (GROQ_API_KEY w) \<or> groq_client w = None))
   \<or> (\<exists>create. truthy (GROQ_API_KEY w) \<and> groq_client w = Some create \<and>
        ((\<exists>e. create prompt = Raises e \<and> call_ai w prompt = (call_failed e, [Groq_create prompt]))
         \<or> (create prompt = Returns [] \<and>
              call_ai w prompt = (call_failed ''list index out of range'', [Groq_create prompt]))
         \<or> (\<exists>ai_text others. create prompt = Returns (ai_text # others) \<and>
              call_ai w prompt =
                (\<lparr>summary = ai_text, insights = [], status = ''success''\<rparr>, [Groq_create prompt]))))"
proof (cases "truthy (GROQ_API_KEY w)")
  case False
  then show ?thesis by (simp add: call_ai_def)
next
  case key: True
  show ?thesis
  proof (cases "groq_client w")
    case None
    with key show ?thesis by (simp add: call_ai_def)
  next
    case (Some create)
    show ?thesis
    proof (cases "create prompt")
      case (Raises e)
      with key Some show ?thesis by (simp add: call_ai_def)
    next
      case (Returns choices)
      with key Some show ?thesis by (cases choices) (simp_all add: call_ai_def)
    qed
  qed
qed

text \<open>
  Claim C7. An analysis that \<^verbatim>\<open>call_ai\<close> returns with the status \<^verbatim>\<open>"error"\<close> has
  no insights or the single explanatory entry, and its summary is one of the two error
  messages (the fixed configuration message, or the fixed prefix followed by the text of
  the exception); it is never text of the model, since in that case the model service
  has returned no choice.
\<close>

theorem call_ai_error_shape:
  assumes "status (fst (call_ai w prompt)) = ''error''"
  shows "(insights (fst (call_ai w prompt)) = [] \<or>
          insights (fst (call_ai w prompt)) = [''AI configuration needed'']) \<and>
         (summary (fst (call_ai w prompt)) =
            Some ''Error: GROQ_API_KEY not configured. Please set your Groq API key in the .env file.''
          \<or> (\<exists>e. summary (fst (call_ai w prompt)) = Some (''Error calling Groq API: '' @ e))) \<and>
         (\<forall>create ai_text others. truthy (GROQ_API_KEY w) \<and> groq_client w = Some create \<longrightarrow>
            create prompt \<noteq> Returns (ai_text # others))"
  using call_ai_cases [of w prompt] assms
  by (auto simp: config_missing_def call_failed_def)

theorem call_ai_error_shape_witness:
  "status (fst (call_ai (sample_world (Some ''gsk'') (\<lambda>p. Raises ''Connection error.'')) ''Review this'')) = ''error'' \<and>
   insights (fst (call_ai (sample_world (Some ''gsk'') (\<lambda>p. Raises ''Connection error.'')) ''Review this'')) = [] \<and>
   summary (fst (call_ai (sample_world (Some ''gsk'') (\<lambda>p. Raises ''Connection error.'')) ''Review this'')) =
     Some ''Error calling Groq API: Connection error.''"
  using call_ai_error_shape [of "sample_world (Some ''gsk'') (\<lambda>p. Raises ''Connection error.'')" "''Review this''"]
  by (simp add: call_ai_def sample_world_sel call_failed_def)


subsection \<open>Request handlers\<close>

text \<open>The handlers in terms of what \<^verbatim>\<open>call_ai\<close> and the insert answer.\<close>

lemma analyze_transcript_eq:
  assumes "call_ai w (transcript_prompt data) = (a, calls)"
  shows "analyze_transcript w data =
    (except_500
       (case insert_transcripts w \<lparr>row_data = data, row_analysis = a\<rparr> of
          Raises e \<Rightarrow> Inl e
        | Returns rows \<Rightarrow>
            (case first_id rows tr_id of
               Inl e \<Rightarrow> Inl e
             | Inr i \<Rightarrow> Inr \<lparr>result = a, resp_id = i\<rparr>)),
     calls @ [Insert_transcripts \<lparr>row_data = data, row_analysis = a\<rparr>])"
  using assms by (simp add: analyze_transcript_def Let_def)

lemma generate_icebreaker_eq:
  assumes "call_ai w (icebreaker_prompt data) = (a, calls)"
  shows "generate_icebreaker w data =
    (except_500
       (case insert_icebreakers w \<lparr>row_data = data, row_analysis = a\<rparr> of
          Raises e \<Rightarrow> Inl e
        | Returns rows \<Rightarrow>
            (case first_id rows ib_id of
               Inl e \<Rightarrow> Inl e
             | Inr i \<Rightarrow> Inr \<lparr>result = a, resp_id = i\<rparr>)),
     calls @ [Insert_icebreakers \<lparr>row_data = data, row_analysis = a\<rparr>])"
  using assms by (simp add: generate_icebreaker_def Let_def)

lemma call_ai_except:
  assumes "truthy (GROQ_API_KEY w)" and "groq_client w = Some create"
    and "create prompt = Raises e \<or> (create prompt = Returns [] \<and> e = ''list index out of range'')"
  shows "call_ai w prompt = (call_failed e, [Groq_create prompt])"
  using assms by (auto simp: call_ai_def)

text \<open>
  Claim C3. With a client configured, a call to the model service that raises (or whose
  answer has no choice, so that reading the first one raises) is not propagated. For
  every prompt, \<^verbatim>\<open>call_ai\<close> returns the status \<^verbatim>\<open>"error"\<close> with the text of the
  exception in the summary. For every transcript request whose prompt fails in this
  way, \<^verbatim>\<open>analyze_transcript\<close> hands the record with this analysis to the store and,
  whenever the store answers the insert, answers with that analysis and the new
  identifier, not with an error response; and so does \<^verbatim>\<open>generate_icebreaker\<close> for
  every icebreaker request whose prompt fails. The three statements are independent:
  each has the failure of its own prompt as its only premise.
\<close>

theorem model_failure_not_propagated:
  assumes "truthy (GROQ_API_KEY w)" and "groq_client w = Some create"
  shows
    "(create prompt = Raises e \<or> (create prompt = Returns [] \<and> e = ''list index out of range'')
        \<longrightarrow> call_ai w prompt =
           (\<lparr>summary = Some (''Error calling Groq API: '' @ e), insights = [], status = ''error''\<rparr>,
            [Groq_create prompt])) \<and>
     (create (transcript_prompt t) = Raises e1 \<or>
      (create (transcript_prompt t) = Returns [] \<and> e1 = ''list index out of range'')
        \<longrightarrow> snd (analyze_transcript w t) =
              [Groq_create (transcript_prompt t),
               Insert_transcripts \<lparr>row_data = t, row_analysis = call_failed e1\<rparr>] \<and>
            (\<forall>rows i. insert_transcripts w \<lparr>row_data = t, row_analysis = call_failed e1\<rparr> = Returns rows \<and>
               first_id rows tr_id = Inr i \<longrightarrow>
               fst (analyze_transcript w t) = Inr \<lparr>result = call_failed e1, resp_id = i\<rparr>)) \<and>
     (create (icebreaker_prompt b) = Raises e2 \<or>
      (create (icebreaker_prompt b) = Returns [] \<and> e2 = ''list index out of range'')
        \<longrightarrow> snd (generate_icebreaker w b) =
              [Groq_create (icebreaker_prompt b),
               Insert_icebreakers \<lparr>row_data = b, row_analysis = call_failed e2\<rparr>] \<and>
            (\<forall>rows i. insert_icebreakers w \<lparr>row_data = b, row_analysis = call_failed e2\<rparr> = Returns rows \<and>
               first_id rows ib_id = Inr i \<longrightarrow>
               fst (generate_icebreaker w b) = Inr \<lparr>result = call_failed e2, resp_id = i\<rparr>))"
proof (intro conjI impI)
  assume "create prompt = Raises e \<or> (create prompt = Returns [] \<and> e = ''list index out of range'')"
  with assms have "call_ai w prompt = (call_failed e, [Groq_create prompt])"
    by (rule call_ai_except)
  then show "call_ai w prompt =
     (\<lparr>summary = Some (''Error calling Groq API: '' @ e), insights = [], status = ''error''\<rparr>,
      [Groq_create prompt])"
    by (simp add: call_failed_def)
next
  assume "create (transcript_prompt t) = Raises e1 \<or>
    (create (transcript_prompt t) = Returns [] \<and> e1 = ''list index out of range'')"
  with assms have t: "call_ai w (transcript_prompt t) = (call_failed e1, [Groq_create (transcript_prompt t)])"
    by (rule call_ai_except)
  show "snd (analyze_transcript w t) =
      [Groq_create (transcript_prompt t),
       Insert_transcripts \<lparr>row_data = t, row_analysis = call_failed e1\<rparr>]"
    unfolding analyze_transcript_eq [OF t] by simp
  show "\<forall>rows i. insert_transcripts w \<lparr>row_data = t, row_analysis = call_failed e1\<rparr> = Returns rows \<and>
       first_id rows tr_id = Inr i \<longrightarrow>
       fst (analyze_transcript w t) = Inr \<lparr>result = call_failed e1, resp_id = i\<rparr>"
    unfolding analyze_transcript_eq [OF t] by (simp add: except_500_def)
next
  assume "create (icebreaker_prompt b) = Raises e2 \<or>
    (create (icebreaker_prompt b) = Returns [] \<and> e2 = ''list index out of range'')"
  with assms have b: "call_ai w (icebreaker_prompt b) = (call_failed e2, [Groq_create (icebreaker_prompt b)])"
    by (rule call_ai_except)
  show "snd (generate_icebreaker w b) =
      [Groq_create (icebreaker_prompt b),
       Insert_icebreakers \<lparr>row_data = b, row_analysis = call_failed e2\<rparr>]"
    unfolding generate_icebreaker_eq [OF b] by simp
  show "\<forall>rows i. insert_icebreakers w \<lparr>row_data = b, row_analysis = call_failed e2\<rparr> = Returns rows \<and>
       first_id rows ib_id = Inr i \<longrightarrow>
       fst (generate_icebreaker w b) = Inr \<lparr>result = call_failed e2, resp_id = i\<rparr>"
    unfolding generate_icebreaker_eq [OF b] by (simp add: except_500_def)
qed

text \<open>
  A service that fails on the icebreaker prompts only (an answer without choices for
  every other prompt would fail too, so it answers those): the icebreaker handler
  answers with the error analysis and the identifier of the stored row.
\<close>

theorem model_failure_not_propagated_witness:
  "truthy (GROQ_API_KEY (sample_world (Some ''gsk'')
     (\<lambda>p. if p = icebreaker_prompt jane_request then Raises ''Connection error.''
          else Returns [Some ''Good job.'']))) \<and>
   call_ai (sample_world (Some ''gsk'')
     (\<lambda>p. if p = icebreaker_prompt jane_request then Raises ''Connection error.''
          else Returns [Some ''Good job.''])) (icebreaker_prompt jane_request) =
     (\<lparr>summary = Some ''Error calling Groq API: Connection error.'', insights = [],
       status = ''error''\<rparr>, [Groq_create (icebreaker_prompt jane_request)]) \<and>
   fst (generate_icebreaker (sample_world (Some ''gsk'')
     (\<lambda>p. if p = icebreaker_prompt jane_request then Raises ''Connection error.''
          else Returns [Some ''Good job.''])) jane_request) =
     Inr \<lparr>result = \<lparr>summary = Some ''Error calling Groq API: Connection error.'', insights = [],
                      status = ''error''\<rparr>,
          resp_id = CInt 7\<rparr> \<and>
   fst (analyze_transcript (sample_world (Some ''gsk'') (\<lambda>p. Returns [])) acme_request) =
     Inr \<lparr>result = \<lparr>summary = Some ''Error calling Groq API: list index out of range'', insights = [],
                      status = ''error''\<rparr>,
          resp_id = CInt 1\<rparr>"
  using
    model_failure_not_propagated [of
      "sample_world (Some ''gsk'')
         (\<lambda>p. if p = icebreaker_prompt jane_request then Raises ''Connection error.''
              else Returns [Some ''Good job.''])"
      "\<lambda>p. if p = icebreaker_prompt jane_request then Raises ''Connection error.''
           else Returns [Some ''Good job.'']"
      "icebreaker_prompt jane_request" "''Connection error.''" acme_request "''unused''"
      jane_request "''Connection error.''"]
    model_failure_not_propagated [of
      "sample_world (Some ''gsk'') (\<lambda>p. Returns [])" "\<lambda>p. Returns []"
      "transcript_prompt acme_request" "''list index out of range''" acme_request
      "''list index out of range''" jane_request "''list index out of range''"]
  by (simp add: sample_world_sel first_id_def dict_item_def acme_row_def jane_row_def call_failed_def)

text \<open>
  Claim C5. A failure of the store is not recovered. When the insert raises,
  \<^verbatim>\<open>analyze_transcript\<close> and \<^verbatim>\<open>generate_icebreaker\<close> answer with the status 500 and
  the text of the exception as detail; when either read raises, \<^verbatim>\<open>get_feed\<close> does
  the same and returns no feed at all.
\<close>

theorem store_failure_500:
  "(insert_transcripts w \<lparr>row_data = t, row_analysis = fst (call_ai w (transcript_prompt t))\<rparr> = Raises e
      \<longrightarrow> fst (analyze_transcript w t) = Inl (HTTPException 500 e)) \<and>
   (insert_icebreakers w \<lparr>row_data = b, row_analysis = fst (call_ai w (icebreaker_prompt b))\<rparr> = Raises e
      \<longrightarrow> fst (generate_icebreaker w b) = Inl (HTTPException 500 e)) \<and>
   (select_transcripts w = Raises e \<longrightarrow> fst (get_feed w) = Inl (HTTPException 500 e)) \<and>
   (select_transcripts w = Returns rows \<and> select_icebreakers w = Raises e
      \<longrightarrow> fst (get_feed w) = Inl (HTTPException 500 e))"
proof -
  obtain a calls where t: "call_ai w (transcript_prompt t) = (a, calls)"
    by (cases "call_ai w (transcript_prompt t)")
  obtain a' calls' where b: "call_ai w (icebreaker_prompt b) = (a', calls')"
    by (cases "call_ai w (icebreaker_prompt b)")
  show ?thesis
    unfolding analyze_transcript_eq [OF t] generate_icebreaker_eq [OF b] t b
    by (simp add: except_500_def get_feed_def)
qed

theorem store_failure_500_witness:
  "fst (analyze_transcript
     (sample_world None (\<lambda>p. Returns [])\<lparr>insert_transcripts := \<lambda>row. Raises ''connection refused''\<rparr>)
     acme_request) = Inl (HTTPException 500 ''connection refused'') \<and>
   fst (generate_icebreaker
     (sample_world None (\<lambda>p. Returns [])\<lparr>insert_icebreakers := \<lambda>row. Raises ''connection refused''\<rparr>)
     jane_request) = Inl (HTTPException 500 ''connection refused'') \<and>
   fst (get_feed (sample_world None (\<lambda>p. Returns [])\<lparr>select_transcripts := Raises ''connection refused''\<rparr>))
     = Inl (HTTPException 500 ''connection refused'') \<and>
   fst (get_feed (sample_world None (\<lambda>p. Returns [])\<lparr>select_icebreakers := Raises ''connection refused''\<rparr>))
     = Inl (HTTPException 500 ''connection refused'')"
  using
    store_failure_500 [of "sample_world None (\<lambda>p. Returns [])\<lparr>insert_transcripts := \<lambda>row. Raises ''connection refused''\<rparr>"
      acme_request "''connection refused''" jane_request "[acme_row]"]
    store_failure_500 [of "sample_world None (\<lambda>p. Returns [])\<lparr>insert_icebreakers := \<lambda>row. Raises ''connection refused''\<rparr>"
      acme_request "''connection refused''" jane_request "[acme_row]"]
    store_failure_500 [of "sample_world None (\<lambda>p. Returns [])\<lparr>select_transcripts := Raises ''connection refused''\<rparr>"
      acme_request "''connection refused''" jane_request "[acme_row]"]
    store_failure_500 [of "sample_world None (\<lambda>p. Returns [])\<lparr>select_icebreakers := Raises ''connection refused''\<rparr>"
      acme_request "''connection refused''" jane_request "[acme_row]"]
  by (simp add: sample_world_sel)

text \<open>
  Claim C9. When the insert returns without raising but with no rows, the handler
  answers successfully, with the analysis and a null identifier.
\<close>

theorem empty_insert_result_null_id:
  "(insert_transcripts w \<lparr>row_data = t, row_analysis = fst (call_ai w (transcript_prompt t))\<rparr> = Returns []
      \<longrightarrow> fst (analyze_transcript w t) =
            Inr \<lparr>result = fst (call_ai w (transcript_prompt t)), resp_id = CNull\<rparr>) \<and>
   (insert_icebreakers w \<lparr>row_data = b, row_analysis = fst (call_ai w (icebreaker_prompt b))\<rparr> = Returns []
      \<longrightarrow> fst (generate_icebreaker w b) =
            Inr \<lparr>result = fst (call_ai w (icebreaker_prompt b)), resp_id = CNull\<rparr>)"
proof -
  obtain a calls where t: "call_ai w (transcript_prompt t) = (a, calls)"
    by (cases "call_ai w (transcript_prompt t)")
  obtain a' calls' where b: "call_ai w (icebreaker_prompt b) = (a', calls')"
    by (cases "call_ai w (icebreaker_prompt b)")
  show ?thesis
    unfolding analyze_transcript_eq [OF t] generate_icebreaker_eq [OF b] t b
    by (simp add: except_500_def first_id_def)
qed

theorem empty_insert_result_null_id_witness:
  "fst (analyze_transcript
     (sample_world (Some ''gsk'') (\<lambda>p. Returns [Some ''Good job.''])\<lparr>insert_transcripts := \<lambda>row. Returns []\<rparr>)
     acme_request) =
     Inr \<lparr>result = \<lparr>summary = Some ''Good job.'', insights = [], status = ''success''\<rparr>, resp_id = CNull\<rparr> \<and>
   fst (generate_icebreaker
     (sample_world (Some ''gsk'') (\<lambda>p. Returns [Some ''Good job.''])\<lparr>insert_icebreakers := \<lambda>row. Returns []\<rparr>)
     jane_request) =
     Inr \<lparr>result = \<lparr>summary = Some ''Good job.'', insights = [], status = ''success''\<rparr>, resp_id = CNull\<rparr>"
  using
    empty_insert_result_null_id [of "sample_world (Some ''gsk'') (\<lambda>p. Returns [Some ''Good job.''])\<lparr>insert_transcripts := \<lambda>row. Returns []\<rparr>"
      acme_request jane_request]
    empty_insert_result_null_id [of "sample_world (Some ''gsk'') (\<lambda>p. Returns [Some ''Good job.''])\<lparr>insert_icebreakers := \<lambda>row. Returns []\<rparr>"
      acme_request jane_request]
  by (simp add: sample_world_sel call_ai_def)


subsection \<open>Feed aggregator: the placeholders\<close>

text \<open>
  Claim C2 asks for the placeholder (\<^verbatim>\<open>"Unknown Company"\<close>, \<^verbatim>\<open>"Unknown User"\<close>,
  \<^verbatim>\<open>"Unknown Role"\<close>) wherever the stored field is the empty string. The code does
  not meet it. \<^verbatim>\<open>get_feed\<close> gives the placeholders as defaults of \<^verbatim>\<open>item.get\<close>,
  which stand in only for a key that the row lacks, while the write path stores the
  empty string for a company name that the request leaves out and always writes the
  key. So the row of such a submission comes back with the key and the empty value, and
  its item has the empty title; an icebreaker row with empty \<^verbatim>\<open>username\<close> and
  \<^verbatim>\<open>role\<close> gets the title \<^verbatim>\<open>"LinkedIn Icebreaker - "\<close> and a description that starts
  with the blank before the bullet.
\<close>

theorem empty_fields_not_replaced:
  "snd (analyze_transcript (sample_world None (\<lambda>p. Returns []))
     (parse_TranscriptRequest ''Great call, client loved the demo.'' None None None)) =
     [Insert_transcripts
       \<lparr>row_data = \<lparr>transcript = ''Great call, client loved the demo.'', company_name = '''',
                    attendees = '''', date = ''''\<rparr>,
        row_analysis = config_missing\<rparr>] \<and>
   format_transcript
     \<lparr>tr_id = Some (CInt 1), tr_company_name = Some (CStr ''''), tr_attendees = Some (CStr ''''),
      tr_date = Some (CStr ''''), tr_analysis = Some (JObj []),
      tr_created_at = Some (CStr ''2024-01-02'')\<rparr> =
   Inr \<lparr>feed_id = CInt 1, feed_type = ''transcript'', feed_title = CStr '''',
        feed_description = CStr '''', feed_date = Some (CStr ''''), feed_analysis = JObj [],
        feed_created_at = CStr ''2024-01-02''\<rparr> \<and>
   format_icebreaker
     \<lparr>ib_id = Some (CInt 7), ib_username = Some (CStr ''''), ib_role = Some (CStr ''''),
      ib_analysis = Some (JObj []), ib_created_at = Some (CStr ''2024-01-03'')\<rparr> =
   Inr \<lparr>feed_id = CInt 7, feed_type = ''icebreaker'', feed_title = CStr ''LinkedIn Icebreaker - '',
        feed_description = CStr ('' '' @ bullet @ '' Sales Outreach Analysis''), feed_date = None,
        feed_analysis = JObj [], feed_created_at = CStr ''2024-01-03''\<rparr>"
proof (intro conjI)
  show "snd (analyze_transcript (sample_world None (\<lambda>p. Returns []))
     (parse_TranscriptRequest ''Great call, client loved the demo.'' None None None)) =
     [Insert_transcripts
       \<lparr>row_data = \<lparr>transcript = ''Great call, client loved the demo.'', company_name = '''',
                    attendees = '''', date = ''''\<rparr>,
        row_analysis = config_missing\<rparr>]"
    by (simp add: analyze_transcript_def Let_def call_ai_def sample_world_sel
        parse_TranscriptRequest_def or_default_def)
qed (simp_all add: format_transcript_def format_icebreaker_def dict_item_def dict_get_def)

subsection \<open>Prompt builder\<close>

text \<open>
  Claim C8 says that every field goes into the template as it is, the empty defaults of
  the optional fields too. The deck slot of the icebreaker prompt does not: an empty
  \<^verbatim>\<open>deck_url\<close> is rendered as \<^verbatim>\<open>"No pitch deck provided"\<close>, so the prompt differs
  from the template filled with the fields, and the empty field and the field holding
  that very text give the same prompt.
\<close>

theorem empty_deck_url_counterexample:
  "icebreaker_prompt \<lparr>username = ''Jane'', role = ''CTO'', linkedin_bio = ''...'', deck_url = ''''\<rparr> \<noteq>
     render icebreaker_template [''Jane'', ''CTO'', ''...'', ''''] \<and>
   icebreaker_prompt \<lparr>username = ''Jane'', role = ''CTO'', linkedin_bio = ''...'', deck_url = ''''\<rparr> =
     icebreaker_prompt \<lparr>username = ''Jane'', role = ''CTO'', linkedin_bio = ''...'',
       deck_url = ''No pitch deck provided''\<rparr>"
proof
  show "icebreaker_prompt \<lparr>username = ''Jane'', role = ''CTO'', linkedin_bio = ''...'', deck_url = ''''\<rparr> \<noteq>
     render icebreaker_template [''Jane'', ''CTO'', ''...'', '''']"
  proof
    assume "icebreaker_prompt \<lparr>username = ''Jane'', role = ''CTO'', linkedin_bio = ''...'', deck_url = ''''\<rparr> =
      render icebreaker_template [''Jane'', ''CTO'', ''...'', '''']"
    then have "length (icebreaker_prompt
        \<lparr>username = ''Jane'', role = ''CTO'', linkedin_bio = ''...'', deck_url = ''''\<rparr>) =
      length (render icebreaker_template [''Jane'', ''CTO'', ''...'', ''''])"
      by simp
    then show False
      by (simp add: icebreaker_prompt_def icebreaker_template_def)
  qed
  show "icebreaker_prompt \<lparr>username = ''Jane'', role = ''CTO'', linkedin_bio = ''...'', deck_url = ''''\<rparr> =
     icebreaker_prompt \<lparr>username = ''Jane'', role = ''CTO'', linkedin_bio = ''...'',
       deck_url = ''No pitch deck provided''\<rparr>"
    by (simp add: icebreaker_prompt_def)
qed

text \<open>
  Claim C8, amended. Each prompt is its fixed template with the fields of the request put
  in unchanged, except that the deck slot holds \<^verbatim>\<open>"No pitch deck provided"\<close> when
  \<^verbatim>\<open>deck_url\<close> is empty. In the request, every field that the body gives is the
  given text, and every optional field that the body leaves out, each on its own, is
  the empty string.
\<close>

theorem prompts_fill_templates:
  "transcript_prompt t =
     render transcript_template [company_name t, attendees t, date t, transcript t] \<and>
   icebreaker_prompt b =
     render icebreaker_template
       [username b, role b, linkedin_bio b,
        if deck_url b = '''' then ''No pitch deck provided'' else deck_url b] \<and>
   parse_TranscriptRequest s c a d =
     \<lparr>transcript = s,
      company_name = (case c of None \<Rightarrow> '''' | Some x \<Rightarrow> x),
      attendees = (case a of None \<Rightarrow> '''' | Some x \<Rightarrow> x),
      date = (case d of None \<Rightarrow> '''' | Some x \<Rightarrow> x)\<rparr> \<and>
   parse_IcebreakerRequest u r l k =
     \<lparr>username = u, role = r, linkedin_bio = l,
      deck_url = (case k of None \<Rightarrow> '''' | Some x \<Rightarrow> x)\<rparr>"
  by (simp add: transcript_prompt_def transcript_template_def icebreaker_prompt_def
      icebreaker_template_def parse_TranscriptRequest_def parse_IcebreakerRequest_def or_default_def)

theorem prompts_fill_templates_witness:
  "acme_request =
     \<lparr>transcript = ''Great call, client loved the demo.'', company_name = ''Acme'',
      attendees = '''', date = ''''\<rparr> \<and>
   jane_request = \<lparr>username = ''Jane'', role = ''CTO'', linkedin_bio = ''...'', deck_url = ''''\<rparr> \<and>
   transcript_prompt acme_request =
     render transcript_template [''Acme'', '''', '''', ''Great call, client loved the demo.''] \<and>
   icebreaker_prompt jane_request =
     render icebreaker_template [''Jane'', ''CTO'', ''...'', ''No pitch deck provided'']"
  using prompts_fill_templates [of acme_request jane_request
      "''Great call, client loved the demo.''" "Some ''Acme''" None None
      "''Jane''" "''CTO''" "''...''" None]
  by (simp add: acme_request_def jane_request_def parse_TranscriptRequest_def
      parse_IcebreakerRequest_def or_default_def)

subsection \<open>The loops and the sort\<close>

lemma append_all_Inr:
  "append_all fmt rows acc = Inr ys \<Longrightarrow> \<exists>zs. ys = acc @ zs \<and> map fmt rows = map Inr zs"
proof (induction rows arbitrary: acc)
  case Nil
  then show ?case by simp
next
  case (Cons item rest)
  then obtain x where x: "fmt item = Inr x" and rec: "append_all fmt rest (acc @ [x]) = Inr ys"
    by (auto split: sum.splits)
  from Cons.IH [OF rec] obtain zs where "ys = (acc @ [x]) @ zs" "map fmt rest = map Inr zs"
    by blast
  with x have "ys = acc @ (x # zs) \<and> map fmt (item # rest) = map Inr (x # zs)"
    by simp
  then show ?case by blast
qed

lemma stable_desc_sorted:
  fixes f :: "'a \<Rightarrow> 'k::linorder"
  shows "sorted_wrt (\<lambda>a b. f b \<le> f a) (rev (sort_key f (rev xs)))"
proof -
  have "sorted (map f (sort_key f (rev xs)))"
    by (rule sorted_sort_key)
  then have "sorted_wrt (\<lambda>a b. f a \<le> f b) (sort_key f (rev xs))"
    by (simp add: sorted_map)
  then show ?thesis
    by (simp add: sorted_wrt_rev)
qed

lemma stable_desc_filter:
  fixes f :: "'a \<Rightarrow> 'k::linorder"
  shows "filter (\<lambda>x. f x = k) (rev (sort_key f (rev xs))) = filter (\<lambda>x. f x = k) xs"
proof -
  have "filter (\<lambda>x. f x = k) (rev (sort_key f (rev xs))) = rev (filter (\<lambda>x. f x = k) (sort_key f (rev xs)))"
    by (simp add: rev_filter)
  also have "\<dots> = rev (filter (\<lambda>x. f x = k) (rev xs))"
    by (simp only: sort_key_stable)
  also have "\<dots> = filter (\<lambda>x. f x = k) xs"
    by (simp add: rev_filter)
  finally show ?thesis .
qed

lemma py_ge_str: "is_str a \<Longrightarrow> is_str b \<Longrightarrow> py_ge a b = (str_of b \<le> str_of a)"
  by (cases a; cases b) simp_all

lemma py_ge_int: "is_int a \<Longrightarrow> is_int b \<Longrightarrow> py_ge a b = (int_of b \<le> int_of a)"
  by (cases a; cases b) simp_all

lemma str_of_inj: "is_str a \<Longrightarrow> is_str b \<Longrightarrow> (str_of a = str_of b) = (a = b)"
  by (cases a; cases b) simp_all

lemma int_of_inj: "is_int a \<Longrightarrow> is_int b \<Longrightarrow> (int_of a = int_of b) = (a = b)"
  by (cases a; cases b) simp_all

lemma list_sort_reverse_Inr:
  assumes "list_sort_reverse te key xs = Inr ys"
  shows "(length xs < 2 \<and> ys = xs)
    \<or> (list_all (\<lambda>x. is_str (key x)) xs \<and> ys = rev (sort_key (\<lambda>x. str_of (key x)) (rev xs)))
    \<or> (list_all (\<lambda>x. is_int (key x)) xs \<and> ys = rev (sort_key (\<lambda>x. int_of (key x)) (rev xs)))"
proof (cases "length xs < 2")
  case True
  with assms show ?thesis
    unfolding list_sort_reverse_def by simp
next
  case long: False
  show ?thesis
  proof (cases "list_all (\<lambda>x. is_str (key x)) xs")
    case True
    with assms long show ?thesis
      unfolding list_sort_reverse_def by simp
  next
    case False
    with assms long show ?thesis
      unfolding list_sort_reverse_def by (cases "list_all (\<lambda>x. is_int (key x)) xs") simp_all
  qed
qed

lemma list_sort_reverse_mset:
  assumes "list_sort_reverse te key xs = Inr ys"
  shows "mset ys = mset xs"
  using list_sort_reverse_Inr [OF assms] by auto

lemma sorted_wrt_all:
  "(\<And>x y. x \<in> set xs \<Longrightarrow> y \<in> set xs \<Longrightarrow> R x y) \<Longrightarrow> sorted_wrt R xs"
  by (induction xs) auto

lemma list_sort_reverse_sorted:
  assumes "list_sort_reverse te key xs = Inr ys"
  shows "sorted_wrt (\<lambda>a b. py_ge (key a) (key b)) ys"
proof -
  consider (short) "length xs < 2" "ys = xs"
    | (strs) "list_all (\<lambda>x. is_str (key x)) xs" "ys = rev (sort_key (\<lambda>x. str_of (key x)) (rev xs))"
    | (ints) "list_all (\<lambda>x. is_int (key x)) xs" "ys = rev (sort_key (\<lambda>x. int_of (key x)) (rev xs))"
    using list_sort_reverse_Inr [OF assms] by blast
  then show ?thesis
  proof cases
    case short
    then have "xs = [] \<or> (\<exists>x. xs = [x])"
      by (cases xs) (auto simp: length_Suc_conv)
    with short show ?thesis by auto
  next
    case strs
    then have all: "\<forall>x\<in>set ys. is_str (key x)"
      by (simp add: list_all_iff)
    have "sorted_wrt (\<lambda>a b. str_of (key b) \<le> str_of (key a)) ys"
      unfolding strs(2) by (rule stable_desc_sorted)
    then show ?thesis
      by (rule sorted_wrt_mono_rel [rotated]) (simp add: all py_ge_str)
  next
    case ints
    then have all: "\<forall>x\<in>set ys. is_int (key x)"
      by (simp add: list_all_iff)
    have "sorted_wrt (\<lambda>a b. int_of (key b) \<le> int_of (key a)) ys"
      unfolding ints(2) by (rule stable_desc_sorted)
    then show ?thesis
      by (rule sorted_wrt_mono_rel [rotated]) (simp add: all py_ge_int)
  qed
qed

lemma list_sort_reverse_stable:
  assumes "list_sort_reverse te key xs = Inr ys"
  shows "filter (\<lambda>x. key x = k) ys = filter (\<lambda>x. key x = k) xs"
proof -
  consider (short) "length xs < 2" "ys = xs"
    | (strs) "list_all (\<lambda>x. is_str (key x)) xs" "ys = rev (sort_key (\<lambda>x. str_of (key x)) (rev xs))"
    | (ints) "list_all (\<lambda>x. is_int (key x)) xs" "ys = rev (sort_key (\<lambda>x. int_of (key x)) (rev xs))"
    using list_sort_reverse_Inr [OF assms] by blast
  then show ?thesis
  proof cases
    case short
    then show ?thesis by simp
  next
    case strs
    then have xs: "\<forall>x\<in>set xs. is_str (key x)" and ys: "\<forall>x\<in>set ys. is_str (key x)"
      by (simp_all add: list_all_iff)
    show ?thesis
    proof (cases "is_str k")
      case True
      have "filter (\<lambda>x. str_of (key x) = str_of k) ys = filter (\<lambda>x. str_of (key x) = str_of k) xs"
        unfolding strs(2) by (rule stable_desc_filter)
      moreover have "filter (\<lambda>x. key x = k) ys = filter (\<lambda>x. str_of (key x) = str_of k) ys"
        by (rule filter_cong) (simp_all add: ys True str_of_inj)
      moreover have "filter (\<lambda>x. key x = k) xs = filter (\<lambda>x. str_of (key x) = str_of k) xs"
        by (rule filter_cong) (simp_all add: xs True str_of_inj)
      ultimately show ?thesis by simp
    next
      case False
      with xs ys have "filter (\<lambda>x. key x = k) ys = []" "filter (\<lambda>x. key x = k) xs = []"
        by (auto simp: filter_empty_conv)
      then show ?thesis by simp
    qed
  next
    case ints
    then have xs: "\<forall>x\<in>set xs. is_int (key x)" and ys: "\<forall>x\<in>set ys. is_int (key x)"
      by (simp_all add: list_all_iff)
    show ?thesis
    proof (cases "is_int k")
      case True
      have "filter (\<lambda>x. int_of (key x) = int_of k) ys = filter (\<lambda>x. int_of (key x) = int_of k) xs"
        unfolding ints(2) by (rule stable_desc_filter)
      moreover have "filter (\<lambda>x. key x = k) ys = filter (\<lambda>x. int_of (key x) = int_of k) ys"
        by (rule filter_cong) (simp_all add: ys True int_of_inj)
      moreover have "filter (\<lambda>x. key x = k) xs = filter (\<lambda>x. int_of (key x) = int_of k) xs"
        by (rule filter_cong) (simp_all add: xs True int_of_inj)
      ultimately show ?thesis by simp
    next
      case False
      with xs ys have "filter (\<lambda>x. key x = k) ys = []" "filter (\<lambda>x. key x = k) xs = []"
        by (auto simp: filter_empty_conv)
      then show ?thesis by simp
    qed
  qed
qed

lemma sorted_wrt_filter_nth:
  "sorted_wrt R (filter P ys) \<Longrightarrow> i < j \<Longrightarrow> j < length ys \<Longrightarrow> P (ys ! i) \<Longrightarrow> P (ys ! j)
   \<Longrightarrow> R (ys ! i) (ys ! j)"
proof (induction ys arbitrary: i j)
  case Nil
  then show ?case by simp
next
  case (Cons y ys)
  from Cons.prems obtain j' where j: "j = Suc j'" "j' < length ys"
    by (cases j) auto
  have tail: "sorted_wrt R (filter P ys)"
    using Cons.prems(1) by (simp split: if_splits)
  show ?case
  proof (cases i)
    case 0
    with Cons.prems j have "P y" "ys ! j' \<in> set (filter P ys)"
      by auto
    with Cons.prems(1) have "R y (ys ! j')"
      by simp
    with 0 j show ?thesis by simp
  next
    case (Suc i')
    with Cons.prems j have "R (ys ! i') (ys ! j')"
      by (intro Cons.IH [OF tail]) auto
    with Suc j show ?thesis by simp
  qed
qed

text \<open>What a successful \<^verbatim>\<open>get_feed\<close> went through.\<close>

lemma get_feed_Inr:
  assumes "fst (get_feed w) = Inr resp"
  obtains transcripts_data icebreakers_data ts bs where
    "select_transcripts w = Returns transcripts_data"
    "select_icebreakers w = Returns icebreakers_data"
    "map format_transcript transcripts_data = map Inr ts"
    "map format_icebreaker icebreakers_data = map Inr bs"
    "list_sort_reverse (lt_type_error w) feed_created_at (ts @ bs) = Inr (items resp)"
proof -
  from assms obtain transcripts_data icebreakers_data fs gs where
    sel: "select_transcripts w = Returns transcripts_data" "select_icebreakers w = Returns icebreakers_data"
    and fs: "append_all format_transcript transcripts_data [] = Inr fs"
    and gs: "append_all format_icebreaker icebreakers_data fs = Inr gs"
    and srt: "list_sort_reverse (lt_type_error w) feed_created_at gs = Inr (items resp)"
    by (auto simp: get_feed_def except_500_def split: outcome.splits sum.splits)
  from append_all_Inr [OF fs] obtain ts where ts: "fs = ts" "map format_transcript transcripts_data = map Inr ts"
    by auto
  from append_all_Inr [OF gs] obtain bs where bs: "gs = fs @ bs" "map format_icebreaker icebreakers_data = map Inr bs"
    by auto
  show thesis
    using sel ts bs srt by (intro that [of transcripts_data icebreakers_data ts bs]) simp_all
qed

lemma format_transcript_type: "format_transcript item = Inr x \<Longrightarrow> feed_type x = ''transcript''"
  by (auto simp: format_transcript_def split: sum.splits)

lemma format_icebreaker_type: "format_icebreaker item = Inr x \<Longrightarrow> feed_type x = ''icebreaker''"
  unfolding format_icebreaker_def Let_def by (cases "dict_item (ib_id item) ''id''") auto

lemma map_Inr_type:
  assumes "map fmt rows = map Inr xs" and "\<And>item x. fmt item = Inr x \<Longrightarrow> feed_type x = t"
  shows "\<forall>x\<in>set xs. feed_type x = t"
proof
  fix x assume "x \<in> set xs"
  then have "Inr x \<in> set (map fmt rows)"
    unfolding assms(1) by simp
  then obtain item where "fmt item = Inr x" by auto
  then show "feed_type x = t" by (rule assms(2))
qed

text \<open>
  Claim C1. The items of every feed that \<^verbatim>\<open>get_feed\<close> returns are the items made
  from the transcript rows together with the items made from the icebreaker rows, and
  they are sorted non-increasing by \<^verbatim>\<open>created_at\<close>: of two adjacent items the first
  has a \<^verbatim>\<open>created_at\<close> greater than or equal to that of the second, in Python's
  comparison of the two values (of strings, when they are strings).
\<close>

theorem get_feed_sorted:
  assumes "fst (get_feed w) = Inr resp"
  shows "(\<exists>transcripts_data icebreakers_data ts bs.
            select_transcripts w = Returns transcripts_data \<and>
            select_icebreakers w = Returns icebreakers_data \<and>
            map format_transcript transcripts_data = map Inr ts \<and>
            map format_icebreaker icebreakers_data = map Inr bs \<and>
            mset (items resp) = mset (ts @ bs)) \<and>
         (\<forall>i. Suc i < length (items resp) \<longrightarrow>
            py_ge (feed_created_at (items resp ! i)) (feed_created_at (items resp ! Suc i)))"
proof -
  from assms obtain transcripts_data icebreakers_data ts bs where
    parts: "select_transcripts w = Returns transcripts_data"
      "select_icebreakers w = Returns icebreakers_data"
      "map format_transcript transcripts_data = map Inr ts"
      "map format_icebreaker icebreakers_data = map Inr bs"
    and srt: "list_sort_reverse (lt_type_error w) feed_created_at (ts @ bs) = Inr (items resp)"
    by (rule get_feed_Inr)
  have "mset (items resp) = mset (ts @ bs)"
    using srt by (rule list_sort_reverse_mset)
  with parts have first: "\<exists>transcripts_data icebreakers_data ts bs.
            select_transcripts w = Returns transcripts_data \<and>
            select_icebreakers w = Returns icebreakers_data \<and>
            map format_transcript transcripts_data = map Inr ts \<and>
            map format_icebreaker icebreakers_data = map Inr bs \<and>
            mset (items resp) = mset (ts @ bs)"
    by blast
  have "sorted_wrt (\<lambda>a b. py_ge (feed_created_at a) (feed_created_at b)) (items resp)"
    using srt by (rule list_sort_reverse_sorted)
  then have "\<forall>i. Suc i < length (items resp) \<longrightarrow>
            py_ge (feed_created_at (items resp ! i)) (feed_created_at (items resp ! Suc i))"
    by (simp add: sorted_wrt_iff_nth_less)
  with first show ?thesis by blast
qed

text \<open>
  In a returned feed, every item that stands before a transcript item and has the same
  \<^verbatim>\<open>created_at\<close> is a transcript item too.
\<close>

lemma ties_keep_order:
  assumes "fst (get_feed w) = Inr resp"
    and "i < j" and "j < length (items resp)"
    and "feed_created_at (items resp ! i) = feed_created_at (items resp ! j)"
    and "feed_type (items resp ! j) = ''transcript''"
  shows "feed_type (items resp ! i) = ''transcript''"
proof -
  from assms(1) obtain transcripts_data icebreakers_data ts bs where
    ts: "map format_transcript transcripts_data = map Inr ts"
    and bs: "map format_icebreaker icebreakers_data = map Inr bs"
    and srt: "list_sort_reverse (lt_type_error w) feed_created_at (ts @ bs) = Inr (items resp)"
    by (rule get_feed_Inr)
  define R where "R a b = (feed_type b = ''transcript'' \<longrightarrow> feed_type a = ''transcript'')"
    for a b :: feed_item
  define k where "k = feed_created_at (items resp ! j)"
  have tst: "\<forall>x\<in>set ts. feed_type x = ''transcript''"
    using ts format_transcript_type by (rule map_Inr_type)
  have bst: "\<forall>x\<in>set bs. feed_type x = ''icebreaker''"
    using bs format_icebreaker_type by (rule map_Inr_type)
  have diff: "''icebreaker'' \<noteq> ''transcript''"
    by simp
  have "sorted_wrt R ts"
    by (rule sorted_wrt_all) (simp add: R_def tst)
  moreover have "sorted_wrt R bs"
  proof (rule sorted_wrt_all)
    fix x y assume "x \<in> set bs" "y \<in> set bs"
    with bst have "feed_type y = ''icebreaker''" by blast
    with diff show "R x y" by (simp add: R_def)
  qed
  moreover have "\<forall>x\<in>set ts. \<forall>y\<in>set bs. R x y"
    by (simp add: R_def tst)
  ultimately have "sorted_wrt R (ts @ bs)"
    by (simp add: sorted_wrt_append)
  then have "sorted_wrt R (filter (\<lambda>x. feed_created_at x = k) (ts @ bs))"
    by (rule sorted_wrt_filter)
  then have sorted_ties: "sorted_wrt R (filter (\<lambda>x. feed_created_at x = k) (items resp))"
    by (simp only: list_sort_reverse_stable [OF srt])
  have "feed_created_at (items resp ! i) = k" "feed_created_at (items resp ! j) = k"
    using assms(4) by (simp_all add: k_def)
  with sorted_ties assms(2,3) have "R (items resp ! i) (items resp ! j)"
    by (rule sorted_wrt_filter_nth)
  with assms(5) show ?thesis
    by (simp add: R_def)
qed

lemma sample_format:
  "format_transcript acme_row = Inr acme_item"
  "format_icebreaker jane_row = Inr jane_item"
  "format_icebreaker (jane_row\<lparr>ib_created_at := Some (CStr ''2024-01-02'')\<rparr>) =
     Inr (jane_item\<lparr>feed_created_at := CStr ''2024-01-02''\<rparr>)"
  by (simp_all add: format_transcript_def format_icebreaker_def dict_item_def dict_get_def
      acme_row_def jane_row_def acme_item_def jane_item_def)

lemma sample_feed:
  "fst (get_feed (sample_world None service)) = Inr \<lparr>items = [jane_item, acme_item]\<rparr>"
  by (simp add: get_feed_def sample_world_sel sample_format except_500_def list_sort_reverse_def
      acme_item_def jane_item_def)

lemma sample_feed_tie:
  "fst (get_feed (sample_world None service
     \<lparr>select_icebreakers := Returns [jane_row\<lparr>ib_created_at := Some (CStr ''2024-01-02'')\<rparr>]\<rparr>)) =
   Inr \<lparr>items = [acme_item, jane_item\<lparr>feed_created_at := CStr ''2024-01-02''\<rparr>]\<rparr>"
  by (simp add: get_feed_def sample_world_sel sample_format except_500_def list_sort_reverse_def
      acme_item_def jane_item_def)

theorem get_feed_sorted_witness:
  "fst (get_feed (sample_world None (\<lambda>p. Returns []))) = Inr \<lparr>items = [jane_item, acme_item]\<rparr> \<and>
   py_ge (feed_created_at jane_item) (feed_created_at acme_item) \<and>
   feed_created_at jane_item = CStr ''2024-01-03'' \<and> feed_created_at acme_item = CStr ''2024-01-02''"
  using get_feed_sorted [OF sample_feed [of "\<lambda>p. Returns []"]]
  by (simp add: sample_feed) (simp add: acme_item_def jane_item_def)

text \<open>
  Claim C10. In a feed that \<^verbatim>\<open>get_feed\<close> returns, an item made from a transcript and
  an item made from an icebreaker that have the same \<^verbatim>\<open>created_at\<close> stand in this
  order, the transcript item first: the transcript items are appended before the
  icebreaker items, and the sort keeps the order of equal keys.
\<close>

theorem get_feed_ties:
  assumes "fst (get_feed w) = Inr resp"
    and "i < length (items resp)" and "j < length (items resp)"
    and "feed_type (items resp ! i) = ''transcript''"
    and "feed_type (items resp ! j) = ''icebreaker''"
    and "feed_created_at (items resp ! i) = feed_created_at (items resp ! j)"
  shows "i < j"
proof (rule ccontr)
  assume "\<not> i < j"
  moreover have "i \<noteq> j"
    using assms(4,5) by auto
  ultimately have "j < i" by simp
  from assms(1) this assms(2) assms(6) [symmetric] assms(4)
  have "feed_type (items resp ! j) = ''transcript''"
    by (rule ties_keep_order)
  with assms(5) show False by simp
qed

theorem get_feed_ties_witness:
  "fst (get_feed (sample_world None (\<lambda>p. Returns [])
     \<lparr>select_icebreakers := Returns [jane_row\<lparr>ib_created_at := Some (CStr ''2024-01-02'')\<rparr>]\<rparr>)) =
   Inr \<lparr>items = [acme_item, jane_item\<lparr>feed_created_at := CStr ''2024-01-02''\<rparr>]\<rparr> \<and>
   feed_type acme_item = ''transcript'' \<and>
   feed_type (jane_item\<lparr>feed_created_at := CStr ''2024-01-02''\<rparr>) = ''icebreaker'' \<and>
   feed_created_at acme_item = feed_created_at (jane_item\<lparr>feed_created_at := CStr ''2024-01-02''\<rparr>) \<and>
   (0::nat) < 1"
  using get_feed_ties [OF sample_feed_tie [of "\<lambda>p. Returns []"], of 0 1]
  by (simp add: sample_feed_tie) (simp add: acme_item_def jane_item_def)

end
